theory Spec2Isabelle
  imports Complex_Main
begin

unbundle bit_operations_syntax

section \<open>The ICMP echo client of ping.go\<close>

text \<open>
  The development follows \<^verbatim>\<open>src/ping.go\<close>: the struct \<^verbatim>\<open>PingClient\<close>, its constructor
  \<^verbatim>\<open>NewClient\<close>, the method \<^verbatim>\<open>Ping\<close>, and the two loops of \<^verbatim>\<open>main\<close> (the driver loop and
  the reporter run on an interrupt).

  Conventions of the embedding.
  \<^item> Go's \<^verbatim>\<open>int\<close> is modelled as \<open>int\<close>. The counters of the struct start at 0 and grow by
    at most one per call of \<^verbatim>\<open>Ping\<close> (lemma \<open>mainLoop_counters_bounded\<close> below), and the
    driver sleeps a second after every call, so the 64-bit range is not left.
  \<^item> Go's \<^verbatim>\<open>float64\<close> is modelled as \<open>real\<close>. The code compares round-trip times and
    stores them; comparison and assignment are exact on floats. Only the sum
    \<^verbatim>\<open>TotalTime\<close> is rounded in Go and exact here. Quotients of floats are never formed in the
    model: a printed percentage keeps its numerator and its denominator.
  \<^item> A byte is a \<open>char\<close>, a byte slice a \<open>char list\<close>.
  \<^item> The packages \<^verbatim>\<open>net\<close>, \<^verbatim>\<open>icmp\<close>, \<^verbatim>\<open>os\<close> and \<^verbatim>\<open>time\<close> are not part of the repository.
    What their calls return during one call of \<^verbatim>\<open>Ping\<close> is a parameter, the record
    \<open>world\<close>.
  \<^item> A panic ends the process: it is the result \<open>Panic\<close>. \<^verbatim>\<open>bytes.Repeat\<close> panics on a negative
    count, and the process ends as well when the runtime cannot allocate the slice; whether
    it can is an answer of the library.
\<close>

subsection \<open>Data\<close>

datatype error =
  LibError string     \<comment> \<open>an error value returned by a library call\<close>
  | Errorf string     \<comment> \<open>an error made by \<^verbatim>\<open>fmt.Errorf\<close>\<close>

datatype 'a outcome = Panic string | Return 'a

text \<open>\<^verbatim>\<open>icmp.MessageBody\<close>: the code distinguishes \<^verbatim>\<open>*icmp.Echo\<close> from every other body.\<close>

datatype MessageBody =
  Echo (ID: int) (EchoSeq: int) (Data: "char list")
  | OtherBody "char list"

record Message =
  Type :: int
  Code :: int
  Body :: MessageBody

record PingClient =
  IPAddr :: "char list"
  Addr :: string
  PacketOut :: int
  PacketIn :: int
  IPv4 :: bool
  Seq :: int
  TotalTime :: real
  RTTMax :: real
  RTTMin :: real
  MsgSize :: int
  PLost :: int

text \<open>
  A percentage as the code computes it: the constant 100, or
  \<^verbatim>\<open>(float64(a) / float64(b)) * 100\<close>, kept as the pair of \<open>a\<close> and \<open>b\<close>.
\<close>

datatype percent = Percent real | PercentOf int int

text \<open>What the program prints, one value per call of a print function.\<close>

datatype line =
  PingHeader string "char list"
  | TimeLimitExceeded
  | BytesReceived (nbytes: int) (lossPercent: percent) (src: "char list")
      (icmp_seq: int) (time_ms: real)
  | ErrorLine error
  | StatsHeader
  | PacketStats (sent: int) (received: int) (loss: percent)
  | RttStats (rttMin: real) (rttTotal: real) (rttCount: int) (rttMax: real)

text \<open>
  The resources of the process outside the struct: the connections that were opened and
  not closed, and the standard output.
\<close>

record sys =
  sockets :: "nat list"
  stdout :: "line list"

text \<open>
  The answers of the library during one call of \<^verbatim>\<open>Ping\<close>, in the order of the calls.
  \<open>RepeatFails w n\<close> is the message the process ends with when \<^verbatim>\<open>bytes.Repeat\<close> cannot make a
  slice of \<open>n\<close> bytes, and \<open>None\<close> when it returns the slice.
\<close>

record world =
  ListenPacket :: "error + nat"
  RepeatFails :: "int \<Rightarrow> string option"
  Getpid :: int
  Marshal :: "Message \<Rightarrow> error + char list"
  WriteTo :: "error + int"
  SetReadDeadline :: "error option"
  ReadFrom :: "error + char list"
  Since_ms :: real
  ParseMessage :: "int \<Rightarrow> char list \<Rightarrow> error + Message"

definition ProtocolICMP :: int where
  "ProtocolICMP = 1"

definition ProtocolICMPv6 :: int where
  "ProtocolICMPv6 = 58"

text \<open>\<^verbatim>\<open>ipv4.ICMPTypeEcho\<close> and \<^verbatim>\<open>ipv6.ICMPTypeEchoRequest\<close>.\<close>

definition ICMPTypeEcho :: int where
  "ICMPTypeEcho = 8"

definition ICMPTypeEchoRequest :: int where
  "ICMPTypeEchoRequest = 128"

definition IPv4len :: nat where
  "IPv4len = 4"

subsection \<open>NewClient\<close>

text \<open>
  \<^verbatim>\<open>NewClient(addr, msgSize)\<close>; the first argument is what \<^verbatim>\<open>net.ResolveIPAddr\<close> returns for
  \<^verbatim>\<open>addr\<close>.
\<close>

definition NewClient ::
  "(error + char list) \<Rightarrow> string \<Rightarrow> int \<Rightarrow> sys \<Rightarrow> (error + PingClient) \<times> sys" where
  "NewClient resolved addr msgSize sy =
     (case resolved of
        Inl err \<Rightarrow> (Inl err, sy)
      | Inr ipaddr \<Rightarrow>
          let isIPv4 = (length ipaddr = IPv4len) in
          (Inr \<lparr>IPAddr = ipaddr, Addr = addr, PacketOut = 0, PacketIn = 0, IPv4 = isIPv4,
                 Seq = 0, TotalTime = 0, RTTMax = - 100000, RTTMin = 100000,
                 MsgSize = msgSize, PLost = 0\<rparr>,
           sy\<lparr>stdout := stdout sy @ [PingHeader addr ipaddr]\<rparr>))"

subsection \<open>The comparison of the payloads\<close>

text \<open>
  The two \<^verbatim>\<open>for\<close> loops of \<^verbatim>\<open>Ping\<close> are the same loop with another bound:
  \<^verbatim>\<open>for i := 0; i < n; i++ { if messageData[i] != pData[i] { pLost++ } }\<close>.
  Both bounds are at most the length of both slices, so no index is out of range.
\<close>

function compareLoop :: "'a list \<Rightarrow> 'a list \<Rightarrow> nat \<Rightarrow> nat \<Rightarrow> int \<Rightarrow> int" where
  "compareLoop messageData pData n i pLost =
     (if i < n
      then compareLoop messageData pData n (i + 1)
             (if messageData ! i \<noteq> pData ! i then pLost + 1 else pLost)
      else pLost)"
  by pat_completeness auto
termination
  by (relation "measure (\<lambda>(messageData, pData, n, i, pLost). n - i)") auto

declare compareLoop.simps [simp del]

text \<open>The value of the local variable \<^verbatim>\<open>pLost\<close> at the end of the \<^verbatim>\<open>case *icmp.Echo\<close>.\<close>

definition lostBytes :: "'a list \<Rightarrow> 'a list \<Rightarrow> int" where
  "lostBytes messageData pData =
     (if length pData < length messageData
      then compareLoop messageData pData (length pData) 0
             (0 + (int (length messageData) - int (length pData)))
      else compareLoop messageData pData (length messageData) 0 0)"

subsection \<open>Ping\<close>

definition echoRequest :: "PingClient \<Rightarrow> world \<Rightarrow> char list \<Rightarrow> Message" where
  "echoRequest pc w messageData =
     \<lparr>Type = (if IPv4 pc then ICMPTypeEcho else ICMPTypeEchoRequest), Code = 0,
      Body = Echo (Getpid w AND 0xffff) (Seq pc) messageData\<rparr>"

text \<open>
  Lines 173 to 193, the \<^verbatim>\<open>case *icmp.Echo\<close> of the type switch, with \<^verbatim>\<open>pLost\<close> 0 before it:
  the value of the local variable \<^verbatim>\<open>pLost\<close> at its end, and the output. The variable is
  computed in both branches of the comparison, printed in the second, and assigned to no
  field.
\<close>

fun echoCase :: "char list \<Rightarrow> char list \<Rightarrow> real \<Rightarrow> PingClient \<times> sys \<Rightarrow> int \<times> sys" where
  "echoCase messageData pData dur_ms (pc, sy) =
     (let pLost = lostBytes messageData pData in
      if length pData < length messageData
      then (pLost, sy)
      else
        (pLost,
         sy\<lparr>stdout := stdout sy @
           [BytesReceived (int (length pData))
              (PercentOf pLost (int (length messageData)))
              (IPAddr pc) (Seq pc) dur_ms]\<rparr>))"

text \<open>
  Lines 160 to 197: the reply was read (\<open>reply\<close> is \<^verbatim>\<open>reply[:n]\<close>), the round-trip time is
  recorded; parse, then the type switch. \<^verbatim>\<open>pLost\<close> goes out of scope at the end of the
  \<^verbatim>\<open>else\<close> block.
\<close>

fun parseReply ::
  "world \<Rightarrow> char list \<Rightarrow> char list \<Rightarrow> real \<Rightarrow> PingClient \<times> sys
     \<Rightarrow> error option \<times> PingClient \<times> sys" where
  "parseReply w messageData reply dur_ms (pc, sy) =
     (let proto = (if IPv4 pc then ProtocolICMP else ProtocolICMPv6);
          n = int (length reply)
      in
      (case ParseMessage w proto reply of
        Inl err \<Rightarrow> (Some err, pc, sy)
      | Inr rMsg \<Rightarrow>
          if n = 0
          then (None, pc, sy\<lparr>stdout := stdout sy @ [TimeLimitExceeded]\<rparr>)
          else
            let pc = pc\<lparr>PacketIn := PacketIn pc + 1\<rparr> in
            (case Body rMsg of
               Echo pid pseq pData \<Rightarrow>
                 (None, pc, snd (echoCase messageData pData dur_ms (pc, sy)))
             | OtherBody raw \<Rightarrow> (None, pc, sy))))"

text \<open>
  Lines 80 to 158, then \<open>parseReply\<close>. The code discards what \<^verbatim>\<open>SetTTL\<close> and
  \<^verbatim>\<open>SetHopLimit\<close> return, and \<open>ttl\<close> reaches nothing else. \<^verbatim>\<open>bytes.Repeat\<close> panics on a
  negative count and ends the process when the slice cannot be made. No statement of the function closes the connection \<open>c\<close>.
\<close>

fun Ping ::
  "int \<Rightarrow> world \<Rightarrow> PingClient \<times> sys \<Rightarrow> (error option \<times> PingClient \<times> sys) outcome" where
  "Ping ttl w (pc, sy) =
     (case ListenPacket w of
        Inl err \<Rightarrow> Return (Some err, pc, sy)
      | Inr c \<Rightarrow>
          let sy = sy\<lparr>sockets := c # sockets sy\<rparr> in
          if MsgSize pc < 0
          then Panic ''bytes: negative Repeat count''
          else
            (case RepeatFails w (MsgSize pc) of
              Some msg \<Rightarrow> Panic msg
            | None \<Rightarrow>
            let messageData = replicate (nat (MsgSize pc)) (CHR ''a'');
                m = echoRequest pc w messageData;
                pc = pc\<lparr>Seq := Seq pc + 1\<rparr>;
                pc = pc\<lparr>PacketOut := PacketOut pc + 1\<rparr>
            in
            (case Marshal w m of
              Inl err \<Rightarrow> Return (Some err, pc, sy)
            | Inr marsh \<Rightarrow>
                (case WriteTo w of
                   Inl err \<Rightarrow> Return (Some err, pc, sy)
                 | Inr n \<Rightarrow>
                     if n \<noteq> int (length marsh)
                     then Return (Some (Errorf (''error marshalling message'' @ [CHR 0x0A])), pc, sy)
                     else
                       (case SetReadDeadline w of
                          Some err \<Rightarrow> Return (Some err, pc, sy)
                        | None \<Rightarrow>
                            (case ReadFrom w of
                               Inl err \<Rightarrow> Return (Some err, pc, sy)
                             | Inr reply \<Rightarrow>
                                 let dur_ms = Since_ms w;
                                     pc = (if dur_ms < RTTMin pc
                                           then pc\<lparr>RTTMin := dur_ms\<rparr> else pc);
                                     pc = (if dur_ms > RTTMax pc
                                           then pc\<lparr>RTTMax := dur_ms\<rparr> else pc);
                                     pc = pc\<lparr>TotalTime := TotalTime pc + dur_ms\<rparr>
                                 in Return (parseReply w messageData reply dur_ms (pc, sy))))))))"

subsection \<open>main\<close>

text \<open>
  The driver loop \<^verbatim>\<open>for { err = client.Ping(ttl); if err != nil { fmt.Println(err) }; ... }\<close>
  never ends by itself; \<open>mainLoop ttl ws\<close> is its first \<open>length ws\<close> iterations, the
  library answering the \<open>k\<close>-th call with the \<open>k\<close>-th element of \<open>ws\<close>.
\<close>

fun mainLoop :: "int \<Rightarrow> world list \<Rightarrow> PingClient \<times> sys \<Rightarrow> (PingClient \<times> sys) outcome" where
  "mainLoop ttl [] st = Return st"
| "mainLoop ttl (w # ws) st =
     (case Ping ttl w st of
        Panic msg \<Rightarrow> Panic msg
      | Return (err, pc, sy) \<Rightarrow>
          mainLoop ttl ws
            (pc, (case err of
                    None \<Rightarrow> sy
                  | Some e \<Rightarrow> sy\<lparr>stdout := stdout sy @ [ErrorLine e]\<rparr>)))"

text \<open>The body of the goroutine that waits for the interrupt: what it prints.\<close>

definition report :: "PingClient \<Rightarrow> line list" where
  "report client =
     (let loss = (if PacketIn client > 0
                  then PercentOf (PLost client) (PacketOut client * MsgSize client)
                  else Percent 100)
      in [StatsHeader, PacketStats (PacketOut client) (PacketIn client) loss] @
         (if PacketIn client > 0
          then [RttStats (RTTMin client) (TotalTime client) (PacketIn client) (RTTMax client)]
          else []))"

subsection \<open>Conditions on the answers of the library\<close>

text \<open>
  The theorems below speak of calls that fail at a given library call, or that read a
  reply. These predicates say so in terms of the answers: each follows the checks of
  \<^verbatim>\<open>Ping\<close> down to the call in question.
\<close>

text \<open>The payload \<^verbatim>\<open>messageData\<close> of the client.\<close>

definition sentPayload :: "PingClient \<Rightarrow> char list" where
  "sentPayload pc = replicate (nat (MsgSize pc)) (CHR ''a'')"

text \<open>The argument of \<^verbatim>\<open>m.Marshal(nil)\<close> and its result.\<close>

definition marshalled :: "world \<Rightarrow> PingClient \<Rightarrow> error + char list" where
  "marshalled w pc = Marshal w (echoRequest pc w (sentPayload pc))"

text \<open>\<^verbatim>\<open>bytes.Repeat\<close> returns the payload.\<close>

definition repeatReturns :: "world \<Rightarrow> PingClient \<Rightarrow> bool" where
  "repeatReturns w pc = (0 \<le> MsgSize pc \<and> RepeatFails w (MsgSize pc) = None)"

text \<open>\<^verbatim>\<open>icmp.ListenPacket\<close> returned a connection.\<close>

definition socketOpened :: "world \<Rightarrow> bool" where
  "socketOpened w = (case ListenPacket w of Inl err \<Rightarrow> False | Inr c \<Rightarrow> True)"

text \<open>The call reaches \<^verbatim>\<open>c.WriteTo\<close>: the socket opened, the message was built and encoded.\<close>

definition reachesWrite :: "world \<Rightarrow> PingClient \<Rightarrow> bool" where
  "reachesWrite w pc =
     (socketOpened w \<and> repeatReturns w pc \<and>
      (case marshalled w pc of Inl err \<Rightarrow> False | Inr marsh \<Rightarrow> True))"

text \<open>The send error: \<^verbatim>\<open>c.WriteTo\<close> returned \<open>err\<close>.\<close>

definition sendError :: "world \<Rightarrow> PingClient \<Rightarrow> error \<Rightarrow> bool" where
  "sendError w pc err = (reachesWrite w pc \<and> WriteTo w = Inl err)"

text \<open>The call reaches \<^verbatim>\<open>c.ReadFrom\<close>: all bytes were written and the deadline was set.\<close>

definition reachesRead :: "world \<Rightarrow> PingClient \<Rightarrow> bool" where
  "reachesRead w pc =
     (reachesWrite w pc \<and>
      (case marshalled w pc of
         Inl err \<Rightarrow> False
       | Inr marsh \<Rightarrow> WriteTo w = Inr (int (length marsh))) \<and>
      SetReadDeadline w = None)"

text \<open>
  The receive deadline passed: \<^verbatim>\<open>c.ReadFrom\<close> returned \<open>err\<close> (the code treats every error
  of \<^verbatim>\<open>ReadFrom\<close> alike).
\<close>

definition readTimeout :: "world \<Rightarrow> PingClient \<Rightarrow> error \<Rightarrow> bool" where
  "readTimeout w pc err = (reachesRead w pc \<and> ReadFrom w = Inl err)"

text \<open>A datagram was read: \<^verbatim>\<open>reply[:n]\<close> is \<open>reply\<close>.\<close>

definition replyRead :: "world \<Rightarrow> PingClient \<Rightarrow> char list \<Rightarrow> bool" where
  "replyRead w pc reply = (reachesRead w pc \<and> ReadFrom w = Inr reply)"

text \<open>The reception succeeded: \<^verbatim>\<open>c.ReadFrom\<close> returned a datagram.\<close>

definition readsReply :: "world \<Rightarrow> PingClient \<Rightarrow> bool" where
  "readsReply w pc =
     (reachesRead w pc \<and> (case ReadFrom w of Inl err \<Rightarrow> False | Inr reply \<Rightarrow> True))"

text \<open>
  No call of the first \<open>length ws\<close> iterations of the driver loop read a datagram (the
  states are those of \<open>mainLoop\<close>).
\<close>

fun noReception :: "int \<Rightarrow> world list \<Rightarrow> PingClient \<times> sys \<Rightarrow> bool" where
  "noReception ttl [] st = True"
| "noReception ttl (w # ws) (pc, sy) =
     (\<not> readsReply w pc \<and>
      (case Ping ttl w (pc, sy) of
         Panic msg \<Rightarrow> True
       | Return (err, pc', sy') \<Rightarrow>
           noReception ttl ws
             (pc', (case err of
                      None \<Rightarrow> sy'
                    | Some e \<Rightarrow> sy'\<lparr>stdout := stdout sy' @ [ErrorLine e]\<rparr>))))"

text \<open>
  The round-trip time of a datagram that was read is not negative, and the read is under
  a deadline of 5 seconds (line 137): it stays below the 100000 ms of the initial
  \<^verbatim>\<open>RTTMin\<close>.
\<close>

definition possibleRTT :: "real \<Rightarrow> bool" where
  "possibleRTT r = (0 \<le> r \<and> r \<le> 100000)"

text \<open>
  The lost bytes of an attempt in the words of the specification: for a reply shorter than
  the payload sent, the missing bytes plus the mismatches in the common prefix; otherwise
  the mismatches over the length of the payload sent.
\<close>

definition specLost :: "'a list \<Rightarrow> 'a list \<Rightarrow> int" where
  "specLost S R =
     (if length R < length S
      then (int (length S) - int (length R)) +
           int (card {i. i < length R \<and> S ! i \<noteq> R ! i})
      else int (card {i. i < length S \<and> S ! i \<noteq> R ! i}))"

text \<open>What \<^verbatim>\<open>icmp.ParseMessage(proto, reply[:n])\<close> returns.\<close>

definition parsed :: "world \<Rightarrow> PingClient \<Rightarrow> char list \<Rightarrow> error + Message" where
  "parsed w pc reply =
     ParseMessage w (if IPv4 pc then ProtocolICMP else ProtocolICMPv6) reply"

subsection \<open>Concrete sessions\<close>

text \<open>
  A client for 127.0.0.1 with a payload of 8 bytes, as \<^verbatim>\<open>NewClient\<close> returns it, and
  answers of the library: an echo of \<open>data\<close> after \<open>ms\<close> milliseconds, a message that is
  not an echo, a socket that does not open, a send error, a timeout.
\<close>

definition sys0 :: sys where
  "sys0 = \<lparr>sockets = [], stdout = []\<rparr>"

definition localhost :: "char list" where
  "localhost = [CHR 0x7F, CHR 0x00, CHR 0x00, CHR 0x01]"

definition sys1 :: sys where
  "sys1 = \<lparr>sockets = [], stdout = [PingHeader ''127.0.0.1'' localhost]\<rparr>"

definition client8 :: PingClient where
  "client8 =
     \<lparr>IPAddr = localhost, Addr = ''127.0.0.1'', PacketOut = 0, PacketIn = 0, IPv4 = True,
      Seq = 0, TotalTime = 0, RTTMax = - 100000, RTTMin = 100000, MsgSize = 8, PLost = 0\<rparr>"

definition icmpHeader :: "char list" where
  "icmpHeader = replicate 8 (CHR 0x00)"

definition echoWorld :: "char list \<Rightarrow> real \<Rightarrow> world" where
  "echoWorld data ms =
     \<lparr>ListenPacket = Inr 3,
      RepeatFails = (\<lambda>n. if n \<le> 1073741824 then None else Some ''runtime: out of memory''),
      Getpid = 4242,
      Marshal = (\<lambda>m. case Body m of
                         Echo pid pseq d \<Rightarrow> Inr (icmpHeader @ d)
                       | OtherBody raw \<Rightarrow> Inr (icmpHeader @ raw)),
      WriteTo = Inr 16, SetReadDeadline = None, ReadFrom = Inr (icmpHeader @ data),
      Since_ms = ms,
      ParseMessage = (\<lambda>proto b. Inr \<lparr>Type = 0, Code = 0, Body = Echo 4242 0 (drop 8 b)\<rparr>)\<rparr>"

definition timeExceededWorld :: world where
  "timeExceededWorld =
     (echoWorld [] 7)
       \<lparr>ParseMessage :=
          (\<lambda>proto b. Inr \<lparr>Type = 11, Code = 0, Body = OtherBody (drop 8 b)\<rparr>)\<rparr>"

definition noSocketWorld :: world where
  "noSocketWorld =
     (echoWorld [] 0)\<lparr>ListenPacket := Inl (LibError ''socket: operation not permitted'')\<rparr>"

definition sendErrorWorld :: world where
  "sendErrorWorld =
     (echoWorld [] 0)\<lparr>WriteTo := Inl (LibError ''sendto: network is unreachable'')\<rparr>"

definition timeoutWorld :: world where
  "timeoutWorld = (echoWorld [] 0)\<lparr>ReadFrom := Inl (LibError ''i/o timeout'')\<rparr>"

text \<open>
  A datagram of 4 bytes read after \<open>ms\<close> milliseconds that does not decode, and a client
  whose payload of \<open>2 ^ 62\<close> bytes cannot be allocated.
\<close>

definition decodeErrorWorld :: "real \<Rightarrow> world" where
  "decodeErrorWorld ms =
     (echoWorld [] ms)
       \<lparr>ReadFrom := Inr (replicate 4 (CHR 0x00)),
        ParseMessage := (\<lambda>proto b. Inl (LibError ''message too short''))\<rparr>"

definition hugeClient :: PingClient where
  "hugeClient = client8\<lparr>MsgSize := 4611686018427387904\<rparr>"

text \<open>
  A session of three calls: an echo after 12.3 ms, a socket that does not open, a timeout
  on a second connection; and the state the driver loop reaches with them.
\<close>

definition threeCalls :: "world list" where
  "threeCalls =
     [echoWorld ''aaaaaaaa'' 12.3, noSocketWorld, timeoutWorld\<lparr>ListenPacket := Inr 4\<rparr>]"

definition afterThreeCalls :: "PingClient \<times> sys" where
  "afterThreeCalls =
     (client8\<lparr>PacketOut := 2, PacketIn := 1, Seq := 2, TotalTime := 12.3,
        RTTMax := 12.3, RTTMin := 12.3\<rparr>,
      \<lparr>sockets = [4, 3],
       stdout = [PingHeader ''127.0.0.1'' localhost,
                 BytesReceived 8 (PercentOf 0 8) localhost 1 12.3,
                 ErrorLine (LibError ''socket: operation not permitted''),
                 ErrorLine (LibError ''i/o timeout'')]\<rparr>)"

text \<open>The state of the driver loop after one call that timed out.\<close>

definition afterTimeout :: "PingClient \<times> sys" where
  "afterTimeout =
     (client8\<lparr>PacketOut := 1, Seq := 1\<rparr>,
      \<lparr>sockets = [3],
       stdout = [PingHeader ''127.0.0.1'' localhost, ErrorLine (LibError ''i/o timeout'')]\<rparr>)"

section \<open>Properties\<close>

lemmas world_conds = sentPayload_def marshalled_def repeatReturns_def socketOpened_def
  reachesWrite_def sendError_def reachesRead_def readTimeout_def replyRead_def
  readsReply_def parsed_def

lemmas examples = sys0_def sys1_def localhost_def client8_def icmpHeader_def echoWorld_def
  timeExceededWorld_def noSocketWorld_def sendErrorWorld_def timeoutWorld_def
  decodeErrorWorld_def hugeClient_def

lemmas constants = ProtocolICMP_def ProtocolICMPv6_def ICMPTypeEcho_def
  ICMPTypeEchoRequest_def IPv4len_def echoRequest_def

subsection \<open>The lost bytes of one reply\<close>

text \<open>
  The loop from index \<open>i\<close> adds to \<^verbatim>\<open>pLost\<close> the number of indices from \<open>i\<close> below the bound
  at which the two slices differ.
\<close>

lemma compareLoop_count:
  "compareLoop md pd n i acc =
     acc + int (card {j. i \<le> j \<and> j < n \<and> md ! j \<noteq> pd ! j})"
proof (induction md pd n i acc rule: compareLoop.induct)
  case (1 md pd n i acc)
  show ?case
  proof (cases "i < n")
    case False
    then have "{j. i \<le> j \<and> j < n \<and> md ! j \<noteq> pd ! j} = {}"
      by auto
    with False show ?thesis
      by (simp add: compareLoop.simps)
  next
    case True
    let ?rest = "{j. i + 1 \<le> j \<and> j < n \<and> md ! j \<noteq> pd ! j}"
    have fin: "finite ?rest"
      by simp
    have fresh: "i \<notin> ?rest"
      by simp
    have here: "{j. i \<le> j \<and> j < n \<and> md ! j \<noteq> pd ! j} =
        (if md ! i \<noteq> pd ! i then insert i ?rest else ?rest)"
      using True by (auto simp: Suc_le_eq le_eq_less_or_eq)
    have "compareLoop md pd n i acc =
        compareLoop md pd n (i + 1) (if md ! i \<noteq> pd ! i then acc + 1 else acc)"
      using True by (subst compareLoop.simps) simp
    also have "\<dots> = (if md ! i \<noteq> pd ! i then acc + 1 else acc) + int (card ?rest)"
      using "1.IH" [OF True] .
    also have "\<dots> = acc + int (card {j. i \<le> j \<and> j < n \<and> md ! j \<noteq> pd ! j})"
      unfolding here using fin fresh by (simp del: One_nat_def)
    finally show ?thesis .
  qed
qed

text \<open>The count of the code is the count of the specification.\<close>

lemma lostBytes_specLost: "lostBytes S R = specLost S R"
  by (simp add: lostBytes_def specLost_def compareLoop_count)

subsection \<open>One call of Ping\<close>

text \<open>What a call that returns leaves of the struct, whatever the library answered.\<close>

lemma Ping_Return_fields:
  assumes "Ping ttl w (pc, sy) = Return (e, pc', sy')"
  shows "PLost pc' = PLost pc \<and> MsgSize pc' = MsgSize pc \<and> IPv4 pc' = IPv4 pc
    \<and> Seq pc' - Seq pc = PacketOut pc' - PacketOut pc
    \<and> Seq pc' = (if socketOpened w then Seq pc + 1 else Seq pc)
    \<and> PacketIn pc \<le> PacketIn pc'
    \<and> PacketIn pc' - PacketIn pc \<le> PacketOut pc' - PacketOut pc"
  using assms
  by (auto simp: socketOpened_def Let_def
      split: sum.splits if_splits option.splits MessageBody.splits)

text \<open>
  A call returns unless \<^verbatim>\<open>bytes.Repeat\<close> ends the process, which it does after the socket
  opened and before the counters are incremented.
\<close>

lemma Ping_no_socket:
  "\<not> socketOpened w \<Longrightarrow> \<exists>e. Ping ttl w (pc, sy) = Return (Some e, pc, sy)"
  by (auto simp: socketOpened_def split: sum.splits)

lemma Ping_total:
  "repeatReturns w pc \<Longrightarrow> \<exists>e pc' sy'. Ping ttl w (pc, sy) = Return (e, pc', sy')"
  by (auto simp: repeatReturns_def Let_def
      split: sum.splits if_splits option.splits MessageBody.splits)

lemma Ping_panics:
  "socketOpened w \<Longrightarrow> \<not> repeatReturns w pc \<Longrightarrow> \<exists>msg. Ping ttl w (pc, sy) = Panic msg"
  by (auto simp: socketOpened_def repeatReturns_def Let_def split: sum.splits option.splits)

text \<open>A call that read no datagram leaves the fields of the round-trip time.\<close>

lemma Ping_no_reception:
  assumes "\<not> readsReply w pc" and "Ping ttl w (pc, sy) = Return (e, pc', sy')"
  shows "RTTMin pc' = RTTMin pc \<and> RTTMax pc' = RTTMax pc \<and> TotalTime pc' = TotalTime pc
    \<and> PacketIn pc' = PacketIn pc"
  using assms
  by (auto simp: world_conds Let_def split: sum.splits if_splits option.splits)

text \<open>
  A datagram that parses to a body that is not an echo: the call returns \<^verbatim>\<open>nil\<close> and
  counts the datagram unless it is empty.
\<close>

lemma Ping_non_echo:
  assumes "replyRead w pc reply" and "parsed w pc reply = Inr rMsg"
    and "Body rMsg = OtherBody raw"
  shows "\<exists>pc' sy'. Ping ttl w (pc, sy) = Return (None, pc', sy')
    \<and> PLost pc' = PLost pc
    \<and> PacketIn pc' = (if reply = [] then PacketIn pc else PacketIn pc + 1)"
  using assms
  by (auto simp: world_conds Let_def split: sum.splits option.splits)

text \<open>No call closes a connection: one that opened is still open when the call returns.\<close>

lemma Ping_sockets:
  assumes "Ping ttl w (pc, sy) = Return (e, pc', sy')"
  shows "sockets sy' =
    (case ListenPacket w of Inl err \<Rightarrow> sockets sy | Inr c \<Rightarrow> c # sockets sy)"
  using assms
  by (auto simp: Let_def split: sum.splits if_splits option.splits MessageBody.splits)

subsection \<open>The driver loop\<close>

lemma mainLoop_Return_fields:
  assumes "mainLoop ttl ws (pc, sy) = Return (pc', sy')"
  shows "PLost pc' = PLost pc \<and> MsgSize pc' = MsgSize pc
    \<and> Seq pc' = Seq pc + int (length (filter socketOpened ws))
    \<and> PacketOut pc' - PacketOut pc = Seq pc' - Seq pc
    \<and> PacketIn pc \<le> PacketIn pc'
    \<and> PacketIn pc' - PacketIn pc \<le> PacketOut pc' - PacketOut pc"
  using assms
proof (induction ws arbitrary: pc sy)
  case Nil
  then show ?case by simp
next
  case (Cons w ws)
  from Cons.prems obtain e pc1 sy1 where
    step: "Ping ttl w (pc, sy) = Return (e, pc1, sy1)"
    by (auto split: outcome.splits)
  define sy2 where
    "sy2 = (case e of None \<Rightarrow> sy1 | Some x \<Rightarrow> sy1\<lparr>stdout := stdout sy1 @ [ErrorLine x]\<rparr>)"
  from Cons.prems step have rest: "mainLoop ttl ws (pc1, sy2) = Return (pc', sy')"
    by (simp add: sy2_def)
  note one = Ping_Return_fields [OF step]
  note more = Cons.IH [OF rest]
  from one more show ?case
    by (auto split: if_splits)
qed

lemma mainLoop_total:
  assumes "\<forall>w\<in>set ws. socketOpened w \<longrightarrow> repeatReturns w pc"
  shows "\<exists>pc' sy'. mainLoop ttl ws (pc, sy) = Return (pc', sy')"
  using assms
proof (induction ws arbitrary: pc sy)
  case Nil
  then show ?case by simp
next
  case (Cons w ws)
  have "\<exists>e pc1 sy1. Ping ttl w (pc, sy) = Return (e, pc1, sy1)"
  proof (cases "socketOpened w")
    case True
    with Cons.prems have "repeatReturns w pc" by simp
    then show ?thesis by (rule Ping_total)
  next
    case False
    from Ping_no_socket [OF this] show ?thesis by blast
  qed
  then obtain e pc1 sy1 where
    step: "Ping ttl w (pc, sy) = Return (e, pc1, sy1)"
    by blast
  from Ping_Return_fields [OF step] have "MsgSize pc1 = MsgSize pc"
    by simp
  with Cons.prems have "\<forall>v\<in>set ws. socketOpened v \<longrightarrow> repeatReturns v pc1"
    by (simp add: repeatReturns_def)
  from Cons.IH [OF this] step show ?case
    by simp
qed

text \<open>A session without reception leaves the bounds of the round-trip time.\<close>

lemma mainLoop_no_reception:
  assumes "noReception ttl ws (pc, sy)" and "mainLoop ttl ws (pc, sy) = Return (pc', sy')"
  shows "RTTMin pc' = RTTMin pc \<and> RTTMax pc' = RTTMax pc"
  using assms
proof (induction ws arbitrary: pc sy)
  case Nil
  then show ?case by simp
next
  case (Cons w ws)
  from Cons.prems(2) obtain e pc1 sy1 where
    step: "Ping ttl w (pc, sy) = Return (e, pc1, sy1)"
    by (auto split: outcome.splits)
  define sy2 where
    "sy2 = (case e of None \<Rightarrow> sy1 | Some x \<Rightarrow> sy1\<lparr>stdout := stdout sy1 @ [ErrorLine x]\<rparr>)"
  from Cons.prems(2) step have rest: "mainLoop ttl ws (pc1, sy2) = Return (pc', sy')"
    by (simp add: sy2_def)
  from Cons.prems(1) step have quiet: "\<not> readsReply w pc" and later: "noReception ttl ws (pc1, sy2)"
    by (simp_all add: sy2_def)
  from Ping_no_reception [OF quiet step] Cons.IH [OF later rest]
  show ?case
    by simp
qed

lemma NewClient_fields:
  assumes "NewClient resolved addr msgSize sy0 = (Inr client, sy1)"
  shows "PacketOut client = 0 \<and> PacketIn client = 0 \<and> Seq client = 0 \<and> PLost client = 0
    \<and> TotalTime client = 0 \<and> RTTMax client = - 100000 \<and> RTTMin client = 100000
    \<and> MsgSize client = msgSize"
  using assms
  by (auto simp: NewClient_def Let_def split: sum.splits)

text \<open>
  The counters of a session stay between 0 and the number of calls: the unbounded
  integers of the model agree with the 64-bit integers of the program for every session
  of fewer than \<open>2 ^ 63\<close> calls.
\<close>

lemma mainLoop_counters_bounded:
  assumes "NewClient resolved addr msgSize sy0 = (Inr client, sy1)"
    and "mainLoop ttl ws (client, sy1) = Return (pc', sy')"
  shows "0 \<le> PacketIn pc' \<and> PacketIn pc' \<le> PacketOut pc'
    \<and> PacketOut pc' = Seq pc' \<and> Seq pc' \<le> int (length ws) \<and> PLost pc' = 0"
proof -
  have "length (filter socketOpened ws) \<le> length ws"
    by simp
  with NewClient_fields [OF assms(1)] mainLoop_Return_fields [OF assms(2)]
  show ?thesis
    by simp
qed

lemma client8_fresh:
  "NewClient (Inr localhost) ''127.0.0.1'' 8 sys0 = (Inr client8, sys1)"
  by (simp add: NewClient_def examples constants)

lemma threeCalls_result:
  "mainLoop 64 threeCalls (client8, sys1) = Return afterThreeCalls"
  by (simp add: threeCalls_def afterThreeCalls_def examples constants Let_def lostBytes_def
      compareLoop.simps)

text \<open>A call that read a reply: the three fields of the round-trip time afterwards.\<close>

lemma Ping_reply_read:
  assumes "replyRead w pc reply"
  shows "\<exists>e pc' sy'. Ping ttl w (pc, sy) = Return (e, pc', sy')
    \<and> RTTMin pc' = min (RTTMin pc) (Since_ms w)
    \<and> RTTMax pc' = max (RTTMax pc) (Since_ms w)
    \<and> TotalTime pc' = TotalTime pc + Since_ms w"
  using assms
  by (auto simp: world_conds Let_def min_def max_def
      split: sum.splits MessageBody.splits)

section \<open>The claims\<close>

subsection \<open>Lost bytes are counted and not accumulated\<close>

text \<open>
  C1. The claim: after a call that receives an echo with \<open>L\<close> lost bytes, \<^verbatim>\<open>PLost\<close> is its
  old value plus \<open>L\<close>, and the final report reads that sum. The code computes \<open>L\<close> in the
  local variable \<^verbatim>\<open>pLost\<close> and never assigns \<^verbatim>\<open>pc.PLost\<close> (lemma \<open>Ping_Return_fields\<close>: the
  field is the same after every call). Here: the client sends 8 bytes, the echo carries
  the 4 bytes \<^verbatim>\<open>aaaa\<close>, 4 bytes are lost, the call returns no error and counts the reply,
  \<^verbatim>\<open>PLost\<close> stays 0, and the report prints a loss of 0 out of 8.
\<close>

theorem short_reply_not_accumulated:
  "parsed (echoWorld ''aaaa'' 12.3) client8 (icmpHeader @ ''aaaa'')
     = Inr \<lparr>Type = 0, Code = 0, Body = Echo 4242 0 ''aaaa''\<rparr>
   \<and> lostBytes (replicate (nat (MsgSize client8)) (CHR ''a'')) ''aaaa'' = 4
   \<and> PLost client8 = 0
   \<and> Ping 64 (echoWorld ''aaaa'' 12.3) (client8, sys1) =
       Return (None,
         client8\<lparr>PacketOut := 1, PacketIn := 1, Seq := 1, TotalTime := 12.3,
           RTTMax := 12.3, RTTMin := 12.3\<rparr>,
         \<lparr>sockets = [3], stdout = [PingHeader ''127.0.0.1'' localhost]\<rparr>)
   \<and> report (client8\<lparr>PacketOut := 1, PacketIn := 1, Seq := 1, TotalTime := 12.3,
           RTTMax := 12.3, RTTMin := 12.3\<rparr>) =
       [StatsHeader, PacketStats 1 1 (PercentOf 0 8), RttStats 12.3 12.3 1 12.3]"
  by (simp add: examples constants parsed_def lostBytes_def compareLoop.simps report_def Let_def)


subsection \<open>The lost bytes of an attempt\<close>

text \<open>
  C2. For the payload \<open>S\<close> that was sent and the payload \<open>R\<close> of the echo that was received,
  the count \<^verbatim>\<open>pLost\<close> that \<^verbatim>\<open>Ping\<close> computes for the attempt is: when \<open>R\<close> is shorter than \<open>S\<close>,
  the number of missing bytes plus the number of indices below the length of \<open>R\<close> at which
  \<open>S\<close> and \<open>R\<close> differ (the two are added); otherwise the number of indices below the length
  of \<open>S\<close> at which they differ (\<open>specLost\<close>). A call of \<^verbatim>\<open>Ping\<close> that reads an echo which is
  not shorter prints this count as the numerator of the loss (a shorter echo prints
  nothing), and the local variable has this value at the end of the case in both branches.
  Sent \<^verbatim>\<open>aaaaaaaa\<close> and received \<^verbatim>\<open>aaaa\<close>, the count is 4.
\<close>

theorem lost_bytes_of_attempt:
  "(replyRead w pc reply \<and> reply \<noteq> [] \<and> parsed w pc reply = Inr rMsg
      \<and> Body rMsg = Echo pid pseq R
    \<longrightarrow> (\<exists>pc' sy'. Ping ttl w (pc, sy) = Return (None, pc', sy')
          \<and> stdout sy' = stdout sy @
              (if length R < length (sentPayload pc) then []
               else [BytesReceived (int (length R))
                       (PercentOf (specLost (sentPayload pc) R) (int (length (sentPayload pc))))
                       (IPAddr pc) (Seq pc + 1) (Since_ms w)])))
   \<and> fst (echoCase S R dur_ms (pc, sy)) = specLost S R
   \<and> fst (echoCase ''aaaaaaaa'' ''aaaa'' dur_ms (pc, sy)) = 4"
proof (intro conjI impI)
  assume "replyRead w pc reply \<and> reply \<noteq> [] \<and> parsed w pc reply = Inr rMsg
      \<and> Body rMsg = Echo pid pseq R"
  then show "\<exists>pc' sy'. Ping ttl w (pc, sy) = Return (None, pc', sy')
          \<and> stdout sy' = stdout sy @
              (if length R < length (sentPayload pc) then []
               else [BytesReceived (int (length R))
                       (PercentOf (specLost (sentPayload pc) R) (int (length (sentPayload pc))))
                       (IPAddr pc) (Seq pc + 1) (Since_ms w)])"
    by (auto simp: world_conds Let_def lostBytes_specLost split: sum.splits)
next
  show "fst (echoCase S R dur_ms (pc, sy)) = specLost S R"
    by (simp add: Let_def lostBytes_specLost)
next
  show "fst (echoCase ''aaaaaaaa'' ''aaaa'' dur_ms (pc, sy)) = 4"
    by (simp add: Let_def lostBytes_def compareLoop.simps)
qed

theorem lost_bytes_of_attempt_witness:
  "replyRead (echoWorld ''aaaabaaa'' 12.3) client8 (icmpHeader @ ''aaaabaaa'')
   \<and> parsed (echoWorld ''aaaabaaa'' 12.3) client8 (icmpHeader @ ''aaaabaaa'')
       = Inr \<lparr>Type = 0, Code = 0, Body = Echo 4242 0 ''aaaabaaa''\<rparr>
   \<and> sentPayload client8 = ''aaaaaaaa''
   \<and> (\<exists>pc' sy'. Ping 64 (echoWorld ''aaaabaaa'' 12.3) (client8, sys1) = Return (None, pc', sy')
        \<and> stdout sy' = stdout sys1 @ [BytesReceived 8 (PercentOf 1 8) localhost 1 12.3])"
proof -
  let ?w = "echoWorld ''aaaabaaa'' 12.3"
  have a: "replyRead ?w client8 (icmpHeader @ ''aaaabaaa'')"
    by (simp add: world_conds examples constants)
  have b: "parsed ?w client8 (icmpHeader @ ''aaaabaaa'')
       = Inr \<lparr>Type = 0, Code = 0, Body = Echo 4242 0 ''aaaabaaa''\<rparr>"
    by (simp add: world_conds examples constants)
  have c: "icmpHeader @ ''aaaabaaa'' \<noteq> []"
    by simp
  have d: "Body \<lparr>Type = 0, Code = 0, Body = Echo 4242 0 ''aaaabaaa''\<rparr> = Echo 4242 0 ''aaaabaaa''"
    by simp
  have e: "sentPayload client8 = ''aaaaaaaa''"
    by (simp add: sentPayload_def client8_def eval_nat_numeral)
  have f: "specLost ''aaaaaaaa'' ''aaaabaaa'' = 1"
    unfolding lostBytes_specLost [symmetric]
    by (simp add: lostBytes_def compareLoop.simps)
  have g: "IPAddr client8 = localhost" "Seq client8 = 0" "Since_ms ?w = 12.3"
    by (simp_all add: client8_def echoWorld_def)
  from lost_bytes_of_attempt [of ?w client8 "icmpHeader @ ''aaaabaaa''"
      "\<lparr>Type = 0, Code = 0, Body = Echo 4242 0 ''aaaabaaa''\<rparr>" 4242 0 "''aaaabaaa''" 64 sys1,
      THEN conjunct1] a b c d
  have "\<exists>pc' sy'. Ping 64 ?w (client8, sys1) = Return (None, pc', sy')
        \<and> stdout sy' = stdout sys1 @
              (if length ''aaaabaaa'' < length (sentPayload client8) then []
               else [BytesReceived (int (length ''aaaabaaa''))
                       (PercentOf (specLost (sentPayload client8) ''aaaabaaa'')
                          (int (length (sentPayload client8))))
                       (IPAddr client8) (Seq client8 + 1) (Since_ms ?w)])"
    by blast
  then have "\<exists>pc' sy'. Ping 64 ?w (client8, sys1) = Return (None, pc', sy')
        \<and> stdout sy' = stdout sys1 @ [BytesReceived 8 (PercentOf 1 8) localhost 1 12.3]"
    unfolding e f g by (simp del: Ping.simps)
  with a b e show ?thesis
    by blast
qed


subsection \<open>A reply that is not an echo\<close>

text \<open>
  C3. The claim: when the datagram that was read parses to a message whose body is not an
  echo, the call returns an error of its own and counts nothing. The type switch of the
  code has the case \<^verbatim>\<open>*icmp.Echo\<close> only, after \<^verbatim>\<open>pc.PacketIn++\<close>, and the function ends with
  \<^verbatim>\<open>return nil\<close> (lemma \<open>Ping_non_echo\<close>). Here: a "time exceeded" message of 8 bytes is
  read; the call returns no error and \<^verbatim>\<open>PacketIn\<close> goes from 0 to 1.
\<close>

theorem non_echo_reply_counted:
  "replyRead timeExceededWorld client8 icmpHeader
   \<and> parsed timeExceededWorld client8 icmpHeader
       = Inr \<lparr>Type = 11, Code = 0, Body = OtherBody []\<rparr>
   \<and> PacketIn client8 = 0
   \<and> Ping 64 timeExceededWorld (client8, sys1) =
       Return (None,
         \<lparr>IPAddr = localhost, Addr = ''127.0.0.1'', PacketOut = 1, PacketIn = 1, IPv4 = True,
          Seq = 1, TotalTime = 7, RTTMax = 7, RTTMin = 7, MsgSize = 8, PLost = 0\<rparr>,
         \<lparr>sockets = [3], stdout = [PingHeader ''127.0.0.1'' localhost]\<rparr>)"
  by (simp add: world_conds examples constants Let_def)

subsection \<open>The connection is left open\<close>

text \<open>
  C4. The claim: a call that opened a socket closes it before it returns. The code never
  calls \<^verbatim>\<open>c.Close()\<close> (lemma \<open>Ping_sockets\<close>: a connection that opened is among the open
  ones when the call returns). Here: no connection is open before the call, and
  connection 3 is open after a call that succeeds and after a call that times out.
\<close>

theorem socket_left_open:
  "sockets sys1 = []
   \<and> Ping 64 (echoWorld ''aaaaaaaa'' 12.3) (client8, sys1) =
       Return (None,
         client8\<lparr>PacketOut := 1, PacketIn := 1, Seq := 1, TotalTime := 12.3,
           RTTMax := 12.3, RTTMin := 12.3\<rparr>,
         \<lparr>sockets = [3],
          stdout = [PingHeader ''127.0.0.1'' localhost,
                    BytesReceived 8 (PercentOf 0 8) localhost 1 12.3]\<rparr>)
   \<and> Ping 64 timeoutWorld (client8, sys1) =
       Return (Some (LibError ''i/o timeout''),
         client8\<lparr>PacketOut := 1, Seq := 1\<rparr>,
         \<lparr>sockets = [3], stdout = [PingHeader ''127.0.0.1'' localhost]\<rparr>)"
  by (simp add: examples constants lostBytes_def compareLoop.simps Let_def)


subsection \<open>The sequence number\<close>

text \<open>
  C5, as the code has it. \<^verbatim>\<open>Seq\<close> is incremented after the socket opened and the payload
  was built. A call whose socket does not open returns the error and leaves the struct
  as it was. A call whose socket opens and whose \<^verbatim>\<open>bytes.Repeat\<close> returns does return, with
  \<^verbatim>\<open>Seq\<close> incremented by exactly 1 on every later exit. A call whose socket opens and whose
  \<^verbatim>\<open>bytes.Repeat\<close> does not return ends the process before the increment. After consecutive
  calls that returned, \<^verbatim>\<open>Seq\<close> is its first value plus the number of calls whose socket
  opened; and the calls all return when \<^verbatim>\<open>bytes.Repeat\<close> returns in each call whose socket
  opens.
\<close>

theorem Seq_counts_opened_sockets:
  "(\<not> socketOpened w \<longrightarrow> (\<exists>e. Ping ttl w (pc, sy) = Return (Some e, pc, sy)))
   \<and> (socketOpened w \<and> repeatReturns w pc
        \<longrightarrow> (\<exists>e pc' sy'. Ping ttl w (pc, sy) = Return (e, pc', sy') \<and> Seq pc' = Seq pc + 1))
   \<and> (socketOpened w \<and> \<not> repeatReturns w pc
        \<longrightarrow> (\<exists>msg. Ping ttl w (pc, sy) = Panic msg))
   \<and> (mainLoop ttl ws (pc, sy) = Return (pcN, syN)
        \<longrightarrow> Seq pcN = Seq pc + int (length (filter socketOpened ws)))
   \<and> ((\<forall>v\<in>set ws. socketOpened v \<longrightarrow> repeatReturns v pc)
        \<longrightarrow> (\<exists>pc' sy'. mainLoop ttl ws (pc, sy) = Return (pc', sy')))"
proof (intro conjI impI)
  assume "\<not> socketOpened w"
  then show "\<exists>e. Ping ttl w (pc, sy) = Return (Some e, pc, sy)"
    by (rule Ping_no_socket)
next
  assume a: "socketOpened w \<and> repeatReturns w pc"
  then obtain e pc' sy' where
    r: "Ping ttl w (pc, sy) = Return (e, pc', sy')"
    using Ping_total by blast
  from Ping_Return_fields [OF r] a have "Seq pc' = Seq pc + 1"
    by simp
  with r show "\<exists>e pc' sy'. Ping ttl w (pc, sy) = Return (e, pc', sy') \<and> Seq pc' = Seq pc + 1"
    by blast
next
  assume "socketOpened w \<and> \<not> repeatReturns w pc"
  then show "\<exists>msg. Ping ttl w (pc, sy) = Panic msg"
    using Ping_panics by blast
next
  assume "mainLoop ttl ws (pc, sy) = Return (pcN, syN)"
  from mainLoop_Return_fields [OF this]
  show "Seq pcN = Seq pc + int (length (filter socketOpened ws))"
    by simp
next
  assume "\<forall>v\<in>set ws. socketOpened v \<longrightarrow> repeatReturns v pc"
  then show "\<exists>pc' sy'. mainLoop ttl ws (pc, sy) = Return (pc', sy')"
    by (rule mainLoop_total)
qed


text \<open>
  The claim as stated (every call increments \<^verbatim>\<open>Seq\<close>, a socket-open failure included)
  fails when the socket does not open: the call returns the error and the struct as it
  was, \<^verbatim>\<open>Seq\<close> still 0.
\<close>

theorem Seq_socket_failure_counterexample:
  "Seq client8 = 0
   \<and> Ping 64 noSocketWorld (client8, sys1) =
       Return (Some (LibError ''socket: operation not permitted''),
         \<lparr>IPAddr = localhost, Addr = ''127.0.0.1'', PacketOut = 0, PacketIn = 0, IPv4 = True,
          Seq = 0, TotalTime = 0, RTTMax = - 100000, RTTMin = 100000, MsgSize = 8, PLost = 0\<rparr>,
         sys1)"
  by (simp add: examples constants Let_def)

theorem Seq_counts_opened_sockets_witness:
  "\<not> socketOpened noSocketWorld
   \<and> (\<exists>e. Ping 64 noSocketWorld (client8, sys1) = Return (Some e, client8, sys1))
   \<and> socketOpened timeoutWorld \<and> repeatReturns timeoutWorld client8
   \<and> (\<exists>e pc' sy'. Ping 64 timeoutWorld (client8, sys1) = Return (e, pc', sy') \<and> Seq pc' = 1)
   \<and> \<not> repeatReturns timeoutWorld hugeClient
   \<and> (\<exists>msg. Ping 64 timeoutWorld (hugeClient, sys1) = Panic msg)
   \<and> mainLoop 64 threeCalls (client8, sys1) = Return afterThreeCalls
   \<and> Seq (fst afterThreeCalls) = 2
   \<and> (\<exists>pc' sy'. mainLoop 64 threeCalls (client8, sys1) = Return (pc', sy'))"
proof -
  have s: "\<not> socketOpened noSocketWorld" "socketOpened timeoutWorld"
    "socketOpened (echoWorld ''aaaaaaaa'' 12.3)"
    "socketOpened (timeoutWorld\<lparr>ListenPacket := Inr 4\<rparr>)"
    by (simp_all add: socketOpened_def examples)
  have r: "repeatReturns timeoutWorld client8" "\<not> repeatReturns timeoutWorld hugeClient"
    "repeatReturns (echoWorld ''aaaaaaaa'' 12.3) client8"
    "repeatReturns (timeoutWorld\<lparr>ListenPacket := Inr 4\<rparr>) client8"
    by (simp_all add: repeatReturns_def examples)
  have z: "Seq client8 = 0"
    by (simp add: client8_def)
  have all: "\<forall>v\<in>set threeCalls. socketOpened v \<longrightarrow> repeatReturns v client8"
    by (simp add: threeCalls_def s r)
  have m: "mainLoop 64 threeCalls (client8, sys1)
      = Return (fst afterThreeCalls, snd afterThreeCalls)"
    by (simp add: threeCalls_result)
  have n: "length (filter socketOpened threeCalls) = 2"
    by (simp add: threeCalls_def s)
  note t1 = Seq_counts_opened_sockets [of noSocketWorld 64 client8 sys1 threeCalls
      "fst afterThreeCalls" "snd afterThreeCalls"]
  note t2 = Seq_counts_opened_sockets [of timeoutWorld 64 client8 sys1 "[]" client8 sys1]
  note t3 = Seq_counts_opened_sockets [of timeoutWorld 64 hugeClient sys1 "[]" hugeClient sys1]
  from t1 s(1) have c1: "\<exists>e. Ping 64 noSocketWorld (client8, sys1) = Return (Some e, client8, sys1)"
    by blast
  from t2 s(2) r(1) have c2: "\<exists>e pc' sy'. Ping 64 timeoutWorld (client8, sys1) = Return (e, pc', sy')
      \<and> Seq pc' = Seq client8 + 1"
    by blast
  from t3 s(2) r(2) have c3: "\<exists>msg. Ping 64 timeoutWorld (hugeClient, sys1) = Panic msg"
    by blast
  from t1 m have c4: "Seq (fst afterThreeCalls)
      = Seq client8 + int (length (filter socketOpened threeCalls))"
    by blast
  from t1 all have c5: "\<exists>pc' sy'. mainLoop 64 threeCalls (client8, sys1) = Return (pc', sy')"
    by blast
  from c2 have c2': "\<exists>e pc' sy'. Ping 64 timeoutWorld (client8, sys1) = Return (e, pc', sy')
      \<and> Seq pc' = 1"
    unfolding z by (simp del: Ping.simps)
  from c4 have c4': "Seq (fst afterThreeCalls) = 2"
    unfolding z n by simp
  from s(1,2) r(1,2) c1 c2' c3 c4' c5 threeCalls_result show ?thesis
    by blast
qed

subsection \<open>A send error and a timeout\<close>

text \<open>
  C6. A call that fails with a send error or with an error of the read under the deadline
  returns that error, has incremented \<^verbatim>\<open>PacketOut\<close> and \<^verbatim>\<open>Seq\<close>, and leaves \<^verbatim>\<open>PacketIn\<close>,
  \<^verbatim>\<open>PLost\<close>, \<^verbatim>\<open>RTTMin\<close>, \<^verbatim>\<open>RTTMax\<close> and \<^verbatim>\<open>TotalTime\<close> as they were.
\<close>

theorem failed_send_or_timeout_state:
  assumes "sendError w pc err \<or> readTimeout w pc err"
  shows "\<exists>pc' sy'. Ping ttl w (pc, sy) = Return (Some err, pc', sy')
    \<and> PacketOut pc' = PacketOut pc + 1 \<and> Seq pc' = Seq pc + 1
    \<and> PacketIn pc' = PacketIn pc \<and> PLost pc' = PLost pc
    \<and> RTTMin pc' = RTTMin pc \<and> RTTMax pc' = RTTMax pc \<and> TotalTime pc' = TotalTime pc"
  using assms
  by (auto simp: world_conds Let_def split: sum.splits)

theorem failed_send_or_timeout_state_witness:
  "sendError sendErrorWorld client8 (LibError ''sendto: network is unreachable'')
   \<and> (\<exists>pc' sy'. Ping 64 sendErrorWorld (client8, sys1) =
         Return (Some (LibError ''sendto: network is unreachable''), pc', sy')
       \<and> PacketOut pc' = 1 \<and> Seq pc' = 1 \<and> PacketIn pc' = 0 \<and> PLost pc' = 0
       \<and> RTTMin pc' = 100000 \<and> RTTMax pc' = - 100000 \<and> TotalTime pc' = 0)
   \<and> readTimeout timeoutWorld client8 (LibError ''i/o timeout'')
   \<and> (\<exists>pc' sy'. Ping 64 timeoutWorld (client8, sys1) =
         Return (Some (LibError ''i/o timeout''), pc', sy')
       \<and> PacketOut pc' = 1 \<and> Seq pc' = 1 \<and> PacketIn pc' = 0 \<and> PLost pc' = 0
       \<and> RTTMin pc' = 100000 \<and> RTTMax pc' = - 100000 \<and> TotalTime pc' = 0)"
proof -
  have a: "sendError sendErrorWorld client8 (LibError ''sendto: network is unreachable'')"
    by (simp add: world_conds examples constants)
  have b: "readTimeout timeoutWorld client8 (LibError ''i/o timeout'')"
    by (simp add: world_conds examples constants)
  have c: "PacketOut client8 = 0" "Seq client8 = 0" "PacketIn client8 = 0" "PLost client8 = 0"
    "RTTMin client8 = 100000" "RTTMax client8 = - 100000" "TotalTime client8 = 0"
    by (simp_all add: client8_def)
  from failed_send_or_timeout_state [OF disjI1 [OF a], of 64 sys1]
    failed_send_or_timeout_state [OF disjI2 [OF b], of 64 sys1] a b
  show ?thesis
    unfolding c by simp
qed

subsection \<open>Invariants of a session\<close>

text \<open>
  C7. In every state reached from a client that \<^verbatim>\<open>NewClient\<close> returned by calls of \<^verbatim>\<open>Ping\<close>
  with any answers of the library, \<^verbatim>\<open>PacketIn\<close> is at most \<^verbatim>\<open>PacketOut\<close>.
\<close>

theorem received_le_sent:
  assumes "NewClient resolved addr msgSize sy0 = (Inr client, sy1)"
    and "mainLoop ttl ws (client, sy1) = Return (pc', sy')"
  shows "PacketIn pc' \<le> PacketOut pc'"
  using NewClient_fields [OF assms(1)] mainLoop_Return_fields [OF assms(2)]
  by simp

theorem received_le_sent_witness:
  "NewClient (Inr localhost) ''127.0.0.1'' 8 sys0 = (Inr client8, sys1)
   \<and> mainLoop 64 threeCalls (client8, sys1) = Return afterThreeCalls
   \<and> PacketIn (fst afterThreeCalls) \<le> PacketOut (fst afterThreeCalls)
   \<and> PacketIn (fst afterThreeCalls) = 1 \<and> PacketOut (fst afterThreeCalls) = 2"
proof -
  have r: "mainLoop 64 threeCalls (client8, sys1)
      = Return (fst afterThreeCalls, snd afterThreeCalls)"
    by (simp add: threeCalls_result)
  from received_le_sent [OF client8_fresh r] client8_fresh threeCalls_result
  show ?thesis
    by (simp add: afterThreeCalls_def)
qed

text \<open>
  C10. In every such state \<^verbatim>\<open>Seq\<close> equals \<^verbatim>\<open>PacketOut\<close>: both are 0 in \<^verbatim>\<open>NewClient\<close> and
  \<^verbatim>\<open>Ping\<close> increments them together.
\<close>

theorem Seq_eq_PacketOut:
  assumes "NewClient resolved addr msgSize sy0 = (Inr client, sy1)"
    and "mainLoop ttl ws (client, sy1) = Return (pc', sy')"
  shows "Seq pc' = PacketOut pc'"
  using NewClient_fields [OF assms(1)] mainLoop_Return_fields [OF assms(2)]
  by simp

theorem Seq_eq_PacketOut_witness:
  "NewClient (Inr localhost) ''127.0.0.1'' 8 sys0 = (Inr client8, sys1)
   \<and> mainLoop 64 threeCalls (client8, sys1) = Return afterThreeCalls
   \<and> Seq (fst afterThreeCalls) = PacketOut (fst afterThreeCalls)
   \<and> Seq (fst afterThreeCalls) = 2"
proof -
  have r: "mainLoop 64 threeCalls (client8, sys1)
      = Return (fst afterThreeCalls, snd afterThreeCalls)"
    by (simp add: threeCalls_result)
  from Seq_eq_PacketOut [OF client8_fresh r] client8_fresh threeCalls_result
  show ?thesis
    by (simp add: afterThreeCalls_def)
qed


subsection \<open>The bounds of the round-trip time\<close>

text \<open>
  C8, as the code has it. \<^verbatim>\<open>NewClient\<close> sets \<^verbatim>\<open>RTTMin\<close> to 100000 and \<^verbatim>\<open>RTTMax\<close> to -100000
  (milliseconds), and \<^verbatim>\<open>Ping\<close> updates both when the reception succeeded, before the
  datagram is decoded. So in a session of a new client, the first call whose reception
  succeeds, with a possible round-trip time \<open>r\<close>, leaves \<^verbatim>\<open>RTTMin\<close> and \<^verbatim>\<open>RTTMax\<close> equal to
  \<open>r\<close>, whether the datagram then decodes or not; and every call whose reception succeeds
  with round-trip time \<open>r\<close> sets \<^verbatim>\<open>RTTMin\<close> to the minimum of its old value and \<open>r\<close>, and
  \<^verbatim>\<open>RTTMax\<close> to the maximum. A first round-trip time of 12.3 ms gives 12.3 and 12.3; a
  second of 4.1 ms gives 4.1 and 12.3.
\<close>

theorem rtt_bounds_update:
  "(NewClient resolved addr msgSize sy0 = (Inr client, sy1)
      \<and> noReception ttl ws (client, sy1)
      \<and> mainLoop ttl ws (client, sy1) = Return (pc, sy)
      \<and> replyRead w pc reply \<and> possibleRTT (Since_ms w)
    \<longrightarrow> (\<exists>e pc' sy'. Ping ttl w (pc, sy) = Return (e, pc', sy')
          \<and> RTTMin pc' = Since_ms w \<and> RTTMax pc' = Since_ms w))
   \<and> (replyRead w pc reply
    \<longrightarrow> (\<exists>e pc' sy'. Ping ttl w (pc, sy) = Return (e, pc', sy')
          \<and> RTTMin pc' = min (RTTMin pc) (Since_ms w)
          \<and> RTTMax pc' = max (RTTMax pc) (Since_ms w)))
   \<and> (\<exists>pc1 sy1 pc2 sy2.
         mainLoop 64 [echoWorld ''aaaaaaaa'' 12.3] (client8, sys1) = Return (pc1, sy1)
         \<and> RTTMin pc1 = 12.3 \<and> RTTMax pc1 = 12.3
         \<and> mainLoop 64 [echoWorld ''aaaaaaaa'' 4.1] (pc1, sy1) = Return (pc2, sy2)
         \<and> RTTMin pc2 = 4.1 \<and> RTTMax pc2 = 12.3)"
proof (intro conjI impI)
  assume a: "NewClient resolved addr msgSize sy0 = (Inr client, sy1)
      \<and> noReception ttl ws (client, sy1)
      \<and> mainLoop ttl ws (client, sy1) = Return (pc, sy)
      \<and> replyRead w pc reply \<and> possibleRTT (Since_ms w)"
  then have fresh: "NewClient resolved addr msgSize sy0 = (Inr client, sy1)"
    and quiet: "noReception ttl ws (client, sy1)"
    and run: "mainLoop ttl ws (client, sy1) = Return (pc, sy)"
    and read: "replyRead w pc reply"
    and rtt: "0 \<le> Since_ms w" "Since_ms w \<le> 100000"
    by (simp_all add: possibleRTT_def)
  from NewClient_fields [OF fresh] mainLoop_no_reception [OF quiet run]
  have init: "RTTMin pc = 100000" "RTTMax pc = - 100000"
    by simp_all
  from Ping_reply_read [OF read] obtain e pc' sy' where
    r: "Ping ttl w (pc, sy) = Return (e, pc', sy')"
    and lo: "RTTMin pc' = min (RTTMin pc) (Since_ms w)"
    and hi: "RTTMax pc' = max (RTTMax pc) (Since_ms w)"
    by blast
  from lo hi init rtt have "RTTMin pc' = Since_ms w \<and> RTTMax pc' = Since_ms w"
    by simp
  with r show "\<exists>e pc' sy'. Ping ttl w (pc, sy) = Return (e, pc', sy')
          \<and> RTTMin pc' = Since_ms w \<and> RTTMax pc' = Since_ms w"
    by blast
next
  assume "replyRead w pc reply"
  from Ping_reply_read [OF this]
  show "\<exists>e pc' sy'. Ping ttl w (pc, sy) = Return (e, pc', sy')
          \<and> RTTMin pc' = min (RTTMin pc) (Since_ms w)
          \<and> RTTMax pc' = max (RTTMax pc) (Since_ms w)"
    by blast
next
  show "\<exists>pc1 sy1 pc2 sy2.
         mainLoop 64 [echoWorld ''aaaaaaaa'' 12.3] (client8, sys1) = Return (pc1, sy1)
         \<and> RTTMin pc1 = 12.3 \<and> RTTMax pc1 = 12.3
         \<and> mainLoop 64 [echoWorld ''aaaaaaaa'' 4.1] (pc1, sy1) = Return (pc2, sy2)
         \<and> RTTMin pc2 = 4.1 \<and> RTTMax pc2 = 12.3"
    by (simp add: examples constants Let_def lostBytes_def compareLoop.simps)
qed


text \<open>
  The claim as stated (after the first successful probe both bounds are its round-trip
  time) fails when an earlier probe received a datagram that did not decode: that call
  returns the error of the decoder after it has set both bounds to its 12.3 ms, and the
  first successful probe, after 4.1 ms, leaves \<^verbatim>\<open>RTTMin\<close> 4.1 and \<^verbatim>\<open>RTTMax\<close> 12.3.
\<close>

theorem first_success_after_decode_error_counterexample:
  "NewClient (Inr localhost) ''127.0.0.1'' 8 sys0 = (Inr client8, sys1)
   \<and> possibleRTT 12.3 \<and> possibleRTT 4.1
   \<and> Ping 64 (decodeErrorWorld 12.3) (client8, sys1) =
       Return (Some (LibError ''message too short''),
         \<lparr>IPAddr = localhost, Addr = ''127.0.0.1'', PacketOut = 1, PacketIn = 0, IPv4 = True,
          Seq = 1, TotalTime = 12.3, RTTMax = 12.3, RTTMin = 12.3, MsgSize = 8, PLost = 0\<rparr>,
         \<lparr>sockets = [3], stdout = [PingHeader ''127.0.0.1'' localhost]\<rparr>)
   \<and> Ping 64 ((echoWorld ''aaaaaaaa'' 4.1)\<lparr>ListenPacket := Inr 4\<rparr>)
        (\<lparr>IPAddr = localhost, Addr = ''127.0.0.1'', PacketOut = 1, PacketIn = 0, IPv4 = True,
          Seq = 1, TotalTime = 12.3, RTTMax = 12.3, RTTMin = 12.3, MsgSize = 8, PLost = 0\<rparr>,
         \<lparr>sockets = [3],
          stdout = [PingHeader ''127.0.0.1'' localhost,
                    ErrorLine (LibError ''message too short'')]\<rparr>) =
       Return (None,
         \<lparr>IPAddr = localhost, Addr = ''127.0.0.1'', PacketOut = 2, PacketIn = 1, IPv4 = True,
          Seq = 2, TotalTime = 16.4, RTTMax = 12.3, RTTMin = 4.1, MsgSize = 8, PLost = 0\<rparr>,
         \<lparr>sockets = [4, 3],
          stdout = [PingHeader ''127.0.0.1'' localhost,
                    ErrorLine (LibError ''message too short''),
                    BytesReceived 8 (PercentOf 0 8) localhost 2 4.1]\<rparr>)"
  by (simp add: NewClient_def possibleRTT_def examples constants Let_def lostBytes_def
      compareLoop.simps)

theorem rtt_bounds_update_witness:
  "NewClient (Inr localhost) ''127.0.0.1'' 8 sys0 = (Inr client8, sys1)
   \<and> noReception 64 [timeoutWorld] (client8, sys1)
   \<and> mainLoop 64 [timeoutWorld] (client8, sys1) = Return afterTimeout
   \<and> replyRead ((echoWorld ''aaaaaaaa'' 12.3)\<lparr>ListenPacket := Inr 4\<rparr>) (fst afterTimeout)
        (icmpHeader @ ''aaaaaaaa'')
   \<and> possibleRTT 12.3
   \<and> (\<exists>e pc' sy'. Ping 64 ((echoWorld ''aaaaaaaa'' 12.3)\<lparr>ListenPacket := Inr 4\<rparr>) afterTimeout
          = Return (e, pc', sy')
        \<and> RTTMin pc' = 12.3 \<and> RTTMax pc' = 12.3
        \<and> RTTMin pc' = min (RTTMin (fst afterTimeout)) 12.3
        \<and> RTTMax pc' = max (RTTMax (fst afterTimeout)) 12.3)"
proof -
  let ?w = "(echoWorld ''aaaaaaaa'' 12.3)\<lparr>ListenPacket := Inr 4\<rparr>"
  have q: "noReception 64 [timeoutWorld] (client8, sys1)"
    by (simp add: world_conds examples constants Let_def)
  have m: "mainLoop 64 [timeoutWorld] (client8, sys1) = Return afterTimeout"
    by (simp add: afterTimeout_def examples constants Let_def)
  have m': "mainLoop 64 [timeoutWorld] (client8, sys1)
      = Return (fst afterTimeout, snd afterTimeout)"
    unfolding m by simp
  have a: "replyRead ?w (fst afterTimeout) (icmpHeader @ ''aaaaaaaa'')"
    by (simp add: world_conds afterTimeout_def examples constants)
  have p: "possibleRTT 12.3"
    by (simp add: possibleRTT_def)
  have b: "Since_ms ?w = 12.3"
    by (simp add: echoWorld_def)
  note t = rtt_bounds_update [of "Inr localhost" "''127.0.0.1''" 8 sys0 client8 sys1 64
      "[timeoutWorld]" "fst afterTimeout" "snd afterTimeout" ?w "icmpHeader @ ''aaaaaaaa''"]
  from t client8_fresh q m' a p
  have c1: "\<exists>e pc' sy'. Ping 64 ?w (fst afterTimeout, snd afterTimeout) = Return (e, pc', sy')
          \<and> RTTMin pc' = Since_ms ?w \<and> RTTMax pc' = Since_ms ?w"
    unfolding b by blast
  from t a
  have c2: "\<exists>e pc' sy'. Ping 64 ?w (fst afterTimeout, snd afterTimeout) = Return (e, pc', sy')
          \<and> RTTMin pc' = min (RTTMin (fst afterTimeout)) (Since_ms ?w)
          \<and> RTTMax pc' = max (RTTMax (fst afterTimeout)) (Since_ms ?w)"
    by blast
  from c1 c2 have "\<exists>e pc' sy'. Ping 64 ?w afterTimeout = Return (e, pc', sy')
        \<and> RTTMin pc' = 12.3 \<and> RTTMax pc' = 12.3
        \<and> RTTMin pc' = min (RTTMin (fst afterTimeout)) 12.3
        \<and> RTTMax pc' = max (RTTMax (fst afterTimeout)) 12.3"
    unfolding b by (auto simp del: Ping.simps)
  with client8_fresh q m a p show ?thesis
    by blast
qed

end
